theory Spec2Isabelle
  imports Main "HOL-Library.Sublist"
begin

section \<open>Schema classes used by the chart patch builder\<close>

text \<open>
  The builder of \<^verbatim>\<open>datahub/specific/chart.py\<close> passes values of the catalog's schema
  classes through to the patch accumulator. Only the fields the builder reads or writes are
  kept: \<^verbatim>\<open>tag.tag\<close>, \<^verbatim>\<open>term.urn\<close>, \<^verbatim>\<open>input.destinationUrn\<close> and the keyword arguments of
  \<^verbatim>\<open>Edge(destinationUrn=..., created=..., lastModified=...)\<close>.
\<close>

record AuditStamp =
  time :: int
  actor :: string

record Edge =
  destinationUrn :: string
  created :: "AuditStamp option"
  lastModified :: "AuditStamp option"

record Tag =
  tag :: string

record Term =
  urn :: string

record Owner =
  owner :: string
  ownerType :: string

record ChangeAuditStampsClass =
  stampsCreated :: AuditStamp
  stampsLastModified :: AuditStamp

typedecl SystemMetadataClass
typedecl KafkaAuditHeaderClass

text \<open>
  An identifier object (\<^verbatim>\<open>Urn\<close>): the spec's Identifier with its two observers,
  \<^verbatim>\<open>typeQualifier()\<close> and \<^verbatim>\<open>toString()\<close> (Python's \<^verbatim>\<open>str(urn)\<close>).
\<close>

record Urn =
  typeQualifier :: string
  toString :: string

text \<open>The argument unions of the source: \<^verbatim>\<open>Union[Edge, Urn, str]\<close> and \<^verbatim>\<open>Union[str, Urn]\<close>.\<close>

datatype EdgeOrUrnOrStr = IsEdge Edge | IsUrn Urn | IsStr string

datatype StrOrUrn = AStr string | AUrn Urn

text \<open>
  Modelled from the spec: the aspect-name constants \<^verbatim>\<open>ASPECT_NAME\<close> of the schema classes
  (\<^verbatim>\<open>datahub.metadata.schema_classes\<close> lies outside \<^verbatim>\<open>chart.py\<close>). The builder and its
  helpers name four of them, one per class; each is a distinct, non-empty aspect name, so
  they are kept as an enumeration with the source's spelling.
\<close>

datatype aspect =
  ChartInfo_ASPECT_NAME
| GlobalTags_ASPECT_NAME
| GlossaryTerms_ASPECT_NAME
| Ownership_ASPECT_NAME

section \<open>Patch operations\<close>

datatype op_kind = Op_add | Op_remove | Op_replace

text \<open>
  The payload of an operation is whatever Python object the caller handed over;
  \<open>VEmpty\<close> is the empty marker \<^verbatim>\<open>{}\<close> of the remove operations.
\<close>

datatype PatchValue =
  VStr string
| VInt int
| VEmpty
| VTag Tag
| VTerm Term
| VEdges "Edge list"
| VDict "(string \<times> string) list"
| VOwner Owner
| VOwners "Owner list"
| VStamps ChangeAuditStampsClass

record PatchOperation =
  aspectName :: aspect
  op :: op_kind
  path :: string
  val :: PatchValue

datatype error =
  AssertionError string
| AttributeError
| InvalidIdentifierError
| InvalidUrnTypeError
| InvalidUrnError
| InvalidPathError
| InvalidArgumentError

section \<open>Builder objects and the store\<close>

text \<open>
  A builder is a mutable Python object and every method hands back \<^verbatim>\<open>self\<close>; the two helper
  objects keep a back-reference to the builder that owns them. Objects therefore live in a
  store, addressed by \<open>addr\<close>; an address with no entry is an object whose \<^verbatim>\<open>__init__\<close>
  has not run, on which every attribute access raises \<open>AttributeError\<close>.
\<close>

type_synonym addr = nat

record CustomPropertiesPatchHelper =
  cp_parent :: addr
  aspect_name :: aspect

record OwnershipPatchHelper =
  own_parent :: addr

record ChartPatchBuilder =
  entityUrn :: string
  system_metadata :: "SystemMetadataClass option"
  audit_header :: "KafkaAuditHeaderClass option"
  patches :: "PatchOperation list"
  custom_properties_patch_helper :: "CustomPropertiesPatchHelper option"
  ownership_patch_helper :: "OwnershipPatchHelper option"

record world =
  heap :: "addr \<rightharpoonup> ChartPatchBuilder"
  clock :: nat

text \<open>
  The collaborators the builder consumes, all defined outside \<^verbatim>\<open>chart.py\<close>. They are
  parameters of the model: the Path Segment Codec \<^verbatim>\<open>quote\<close>, the identifier parser
  (\<open>None\<close> for a malformed identifier), the audit-timestamp minter (the stamp handed out at
  the n-th call), \<^verbatim>\<open>TagUrn.create_from_id\<close>, which either makes the tag identifier of an id
  or raises, and the key validation of the custom-properties helper (the keys it turns down
  as structurally empty).
\<close>

record collaborators =
  quote :: "string \<Rightarrow> string"
  parse :: "string \<Rightarrow> Urn option"
  mint :: "nat \<Rightarrow> AuditStamp"
  TagUrn_create_from_id :: "string \<Rightarrow> error + Urn"
  rejects_key :: "string \<Rightarrow> bool"

section \<open>The generic patch-builder core\<close>

text \<open>
  Modelled from the spec: \<^verbatim>\<open>MetadataPatchProposal._add_patch\<close> (the accumulator's
  \<^verbatim>\<open>append(aspectName, op, path, value)\<close>, defined in
  \<^verbatim>\<open>datahub/emitter/mcp_patch_builder.py\<close>, outside \<^verbatim>\<open>chart.py\<close>). It appends one operation at the end of the builder's
  accumulator, never looks at the value and never compares the path with earlier ones; it
  fails with \<open>InvalidPathError\<close> on an empty path (an empty aspect name cannot occur among the
  four aspect-name constants).
\<close>

definition add_patch ::
  "addr \<Rightarrow> aspect \<Rightarrow> op_kind \<Rightarrow> string \<Rightarrow> PatchValue \<Rightarrow> world \<Rightarrow> error option \<times> world" where
  "add_patch self a k p v w =
     (case heap w self of
        None \<Rightarrow> (Some AttributeError, w)
      | Some b \<Rightarrow>
          if p = [] then (Some InvalidPathError, w)
          else (None, w\<lparr>heap := (heap w)(self \<mapsto>
                  b\<lparr>patches := patches b @ [\<lparr>aspectName = a, op = k, path = p, val = v\<rparr>]\<rparr>)\<rparr>))"

text \<open>
  Modelled from the spec: \<^verbatim>\<open>MetadataPatchProposal._mint_auditstamp\<close> (\<^verbatim>\<open>mcp_patch_builder.py\<close>,
  outside \<^verbatim>\<open>chart.py\<close>), the call to the audit-timestamp minter. Each call takes the next
  stamp of the collaborator and touches no builder.
\<close>

definition mint_auditstamp :: "collaborators \<Rightarrow> world \<Rightarrow> AuditStamp \<times> world" where
  "mint_auditstamp c w = (mint c (clock w), w\<lparr>clock := Suc (clock w)\<rparr>)"

text \<open>
  Modelled from the spec: \<^verbatim>\<open>MetadataPatchProposal._ensure_urn_type(entity_type, edges,
  context)\<close> (\<^verbatim>\<open>mcp_patch_builder.py\<close>, outside \<^verbatim>\<open>chart.py\<close>). The target identifier of every edge is parsed and its type qualifier compared
  with the expected kind: a mismatch fails with \<open>InvalidUrnTypeError\<close>, a malformed
  identifier with \<open>InvalidIdentifierError\<close>. The context only labels the error message.
\<close>

fun ensure_urn_type :: "collaborators \<Rightarrow> string \<Rightarrow> Edge list \<Rightarrow> string \<Rightarrow> error option" where
  "ensure_urn_type c entity_type [] context = None"
| "ensure_urn_type c entity_type (e # es) context =
     (case parse c (destinationUrn e) of
        None \<Rightarrow> Some InvalidIdentifierError
      | Some u \<Rightarrow>
          if typeQualifier u \<noteq> entity_type then Some InvalidUrnTypeError
          else ensure_urn_type c entity_type es context)"

text \<open>
  Modelled from the spec: \<^verbatim>\<open>MetadataPatchProposal.__init__\<close> (\<^verbatim>\<open>mcp_patch_builder.py\<close>,
  outside \<^verbatim>\<open>chart.py\<close>), the construction of the generic builder. The identifier must parse and carry the type qualifier the builder
  subtype expects, else the construction fails with \<open>InvalidIdentifierError\<close>; the new
  builder starts with an empty accumulator.
\<close>

definition MetadataPatchProposal_init ::
  "collaborators \<Rightarrow> string \<Rightarrow> addr \<Rightarrow> string \<Rightarrow> SystemMetadataClass option \<Rightarrow>
   KafkaAuditHeaderClass option \<Rightarrow> world \<Rightarrow> error option \<times> world" where
  "MetadataPatchProposal_init c kind self u sm ah w =
     (case parse c u of
        None \<Rightarrow> (Some InvalidIdentifierError, w)
      | Some i \<Rightarrow>
          if typeQualifier i \<noteq> kind then (Some InvalidIdentifierError, w)
          else (None, w\<lparr>heap := (heap w)(self \<mapsto>
                  \<lparr>entityUrn = u, system_metadata = sm, audit_header = ah, patches = [],
                   custom_properties_patch_helper = None, ownership_patch_helper = None\<rparr>)\<rparr>))"

subsection \<open>Materialization and build\<close>

text \<open>
  Modelled from the spec: the order of the aspects in the materialized batch of the generic
  builder (\<^verbatim>\<open>mcp_patch_builder.py\<close>, outside \<^verbatim>\<open>chart.py\<close>): each aspect once, in the order of
  its first operation.
\<close>

fun aspects_in_order :: "PatchOperation list \<Rightarrow> aspect list" where
  "aspects_in_order [] = []"
| "aspects_in_order (p # ps) =
     aspectName p # filter (\<lambda>a. a \<noteq> aspectName p) (aspects_in_order ps)"

text \<open>
  Modelled from the spec: \<^verbatim>\<open>materialize()\<close> of the accumulator (\<^verbatim>\<open>mcp_patch_builder.py\<close>,
  outside \<^verbatim>\<open>chart.py\<close>): the operations grouped by aspect, the operations of one aspect in
  their insertion order.
\<close>

definition materialize :: "PatchOperation list \<Rightarrow> PatchOperation list" where
  "materialize ps = concat (map (\<lambda>a. filter (\<lambda>p. aspectName p = a) ps) (aspects_in_order ps))"

text \<open>
  Modelled from the spec: the \<^verbatim>\<open>PatchRequest\<close> that \<^verbatim>\<open>build()\<close> produces: the entity
  identifier, a mapping from aspect name to the ordered operations \<^verbatim>\<open>{op, path, value}\<close> and
  the optional system metadata and audit header.
\<close>

record PatchRequest =
  entityId :: string
  aspectPatches :: "(aspect \<times> (op_kind \<times> string \<times> PatchValue) list) list"
  systemMetadata :: "SystemMetadataClass option"
  auditHeader :: "KafkaAuditHeaderClass option"

text \<open>
  Modelled from the spec: \<^verbatim>\<open>build()\<close> of the generic builder (\<^verbatim>\<open>mcp_patch_builder.py\<close>,
  outside \<^verbatim>\<open>chart.py\<close>). It reads the builder and changes nothing.
\<close>

definition build :: "addr \<Rightarrow> world \<Rightarrow> error + PatchRequest" where
  "build self w =
     (case heap w self of
        None \<Rightarrow> Inl AttributeError
      | Some b \<Rightarrow> Inr
          \<lparr>entityId = entityUrn b,
           aspectPatches =
             map (\<lambda>a. (a, map (\<lambda>p. (op p, path p, val p))
                              (filter (\<lambda>p. aspectName p = a) (patches b))))
                 (aspects_in_order (patches b)),
           systemMetadata = system_metadata b,
           auditHeader = audit_header b\<rparr>)"

subsection \<open>Sub-document helpers\<close>

text \<open>
  Modelled from the spec: \<^verbatim>\<open>OwnershipPatchHelper.add_owner\<close> (\<^verbatim>\<open>datahub/specific/ownership.py\<close>,
  outside \<^verbatim>\<open>chart.py\<close>), the helper's \<^verbatim>\<open>addEntry\<close>: an add at the field joined with the
  quoted owner key, carrying the owner. An empty key fails with \<open>InvalidArgumentError\<close>.
\<close>

definition OwnershipPatchHelper_add_owner ::
  "collaborators \<Rightarrow> OwnershipPatchHelper \<Rightarrow> Owner \<Rightarrow> world \<Rightarrow> error option \<times> world" where
  "OwnershipPatchHelper_add_owner c h ow w =
     (if owner ow = [] then (Some InvalidArgumentError, w)
      else add_patch (own_parent h) Ownership_ASPECT_NAME Op_add
             (''/owners/'' @ quote c (owner ow)) (VOwner ow) w)"

text \<open>
  Modelled from the spec: \<^verbatim>\<open>OwnershipPatchHelper.remove_owner\<close> (\<^verbatim>\<open>ownership.py\<close>, outside
  \<^verbatim>\<open>chart.py\<close>), the helper's \<^verbatim>\<open>removeEntry\<close>: a remove with the empty marker at the field
  joined with the quoted owner key, extended by the quoted ownership type when one is given.
  An empty key fails with \<open>InvalidArgumentError\<close>.
\<close>

definition OwnershipPatchHelper_remove_owner ::
  "collaborators \<Rightarrow> OwnershipPatchHelper \<Rightarrow> string \<Rightarrow> string option \<Rightarrow> world \<Rightarrow>
   error option \<times> world" where
  "OwnershipPatchHelper_remove_owner c h ow owner_type w =
     (if ow = [] then (Some InvalidArgumentError, w)
      else add_patch (own_parent h) Ownership_ASPECT_NAME Op_remove
             (''/owners/'' @ quote c ow @
                (case owner_type of None \<Rightarrow> [] | Some t \<Rightarrow> ''/'' @ quote c t))
             VEmpty w)"

text \<open>
  Modelled from the spec: \<^verbatim>\<open>OwnershipPatchHelper.set_owners\<close> (\<^verbatim>\<open>ownership.py\<close>, outside
  \<^verbatim>\<open>chart.py\<close>), the helper's \<^verbatim>\<open>setAll\<close>: a single add at the bare field whose value is the
  whole list.
\<close>

definition OwnershipPatchHelper_set_owners ::
  "OwnershipPatchHelper \<Rightarrow> Owner list \<Rightarrow> world \<Rightarrow> error option \<times> world" where
  "OwnershipPatchHelper_set_owners h owners w =
     add_patch (own_parent h) Ownership_ASPECT_NAME Op_add ''/owners'' (VOwners owners) w"

text \<open>
  Modelled from the spec: \<^verbatim>\<open>CustomPropertiesPatchHelper.add_property\<close>
  (\<^verbatim>\<open>datahub/specific/custom_properties.py\<close>, outside \<^verbatim>\<open>chart.py\<close>), the \<^verbatim>\<open>addEntry\<close> of the
  helper bound to the aspect it was constructed with and to the field \<^verbatim>\<open>customProperties\<close>:
  an add at the field joined with the quoted key. A key that the helper's validation turns
  down as structurally empty fails with \<open>InvalidArgumentError\<close>.
\<close>

definition CustomPropertiesPatchHelper_add_property ::
  "collaborators \<Rightarrow> CustomPropertiesPatchHelper \<Rightarrow> string \<Rightarrow> string \<Rightarrow> world \<Rightarrow>
   error option \<times> world" where
  "CustomPropertiesPatchHelper_add_property c h key v w =
     (if rejects_key c key then (Some InvalidArgumentError, w)
      else add_patch (cp_parent h) (aspect_name h) Op_add
             (''/customProperties/'' @ quote c key) (VStr v) w)"

text \<open>
  Modelled from the spec: \<^verbatim>\<open>CustomPropertiesPatchHelper.remove_property\<close>
  (\<^verbatim>\<open>custom_properties.py\<close>, outside \<^verbatim>\<open>chart.py\<close>), the helper's \<^verbatim>\<open>removeEntry\<close>: a remove
  with the empty marker at the field joined with the quoted key. A key that the helper's
  validation turns down as structurally empty fails with \<open>InvalidArgumentError\<close>.
\<close>

definition CustomPropertiesPatchHelper_remove_property ::
  "collaborators \<Rightarrow> CustomPropertiesPatchHelper \<Rightarrow> string \<Rightarrow> world \<Rightarrow> error option \<times> world" where
  "CustomPropertiesPatchHelper_remove_property c h key w =
     (if rejects_key c key then (Some InvalidArgumentError, w)
      else add_patch (cp_parent h) (aspect_name h) Op_remove
             (''/customProperties/'' @ quote c key) VEmpty w)"

section \<open>The chart patch builder\<close>

text \<open>
  From here on the definitions follow \<^verbatim>\<open>datahub/specific/chart.py\<close> method by method.
  A method takes the address of \<^verbatim>\<open>self\<close> and the store and gives back what it returns or
  raises, together with the store it leaves behind.
\<close>

type_synonym 'a result = "(error + 'a) \<times> world"

text \<open>The tail of every method: an error of the call made propagates, else \<^verbatim>\<open>return self\<close>.\<close>

definition return_self :: "addr \<Rightarrow> error option \<times> world \<Rightarrow> addr result" where
  "return_self self r =
     (case r of (Some e, w') \<Rightarrow> (Inl e, w') | (None, w') \<Rightarrow> (Inr self, w'))"

text \<open>
  \<^verbatim>\<open>__init__\<close> runs the constructor of the generic builder, which for a chart builder expects
  an identifier of kind \<^verbatim>\<open>chart\<close>, and then creates the two helpers with \<^verbatim>\<open>self\<close> as their
  parent.
\<close>

definition ChartPatchBuilder_init ::
  "collaborators \<Rightarrow> addr \<Rightarrow> string \<Rightarrow> SystemMetadataClass option \<Rightarrow>
   KafkaAuditHeaderClass option \<Rightarrow> world \<Rightarrow> error option \<times> world" where
  "ChartPatchBuilder_init c self u sm ah w =
     (case MetadataPatchProposal_init c ''chart'' self u sm ah w of
        (Some e, w') \<Rightarrow> (Some e, w')
      | (None, w') \<Rightarrow>
          (case heap w' self of
             None \<Rightarrow> (Some AttributeError, w')
           | Some b \<Rightarrow> (None, w'\<lparr>heap := (heap w')(self \<mapsto>
               b\<lparr>custom_properties_patch_helper :=
                    Some \<lparr>cp_parent = self, aspect_name = ChartInfo_ASPECT_NAME\<rparr>,
                  ownership_patch_helper := Some \<lparr>own_parent = self\<rparr>\<rparr>)\<rparr>)))"

definition add_owner :: "collaborators \<Rightarrow> addr \<Rightarrow> Owner \<Rightarrow> world \<Rightarrow> addr result" where
  "add_owner c self ow w =
     (case heap w self of
        None \<Rightarrow> (Inl AttributeError, w)
      | Some b \<Rightarrow>
          (case ownership_patch_helper b of
             None \<Rightarrow> (Inl AttributeError, w)
           | Some h \<Rightarrow> return_self self (OwnershipPatchHelper_add_owner c h ow w)))"

definition remove_owner ::
  "collaborators \<Rightarrow> addr \<Rightarrow> string \<Rightarrow> string option \<Rightarrow> world \<Rightarrow> addr result" where
  "remove_owner c self ow owner_type w =
     (case heap w self of
        None \<Rightarrow> (Inl AttributeError, w)
      | Some b \<Rightarrow>
          (case ownership_patch_helper b of
             None \<Rightarrow> (Inl AttributeError, w)
           | Some h \<Rightarrow>
               return_self self (OwnershipPatchHelper_remove_owner c h ow owner_type w)))"

definition set_owners :: "addr \<Rightarrow> Owner list \<Rightarrow> world \<Rightarrow> addr result" where
  "set_owners self owners w =
     (case heap w self of
        None \<Rightarrow> (Inl AttributeError, w)
      | Some b \<Rightarrow>
          (case ownership_patch_helper b of
             None \<Rightarrow> (Inl AttributeError, w)
           | Some h \<Rightarrow> return_self self (OwnershipPatchHelper_set_owners h owners w)))"

text \<open>
  The first statement of \<^verbatim>\<open>add_input_edge\<close>: the \<^verbatim>\<open>isinstance\<close> chain that binds
  \<^verbatim>\<open>input_urn\<close> and \<^verbatim>\<open>input_edge\<close>. Keyword arguments are evaluated left to right, so
  \<^verbatim>\<open>created\<close> takes the first minted stamp and \<^verbatim>\<open>lastModified\<close> the second.
\<close>

definition synthesize_edge :: "collaborators \<Rightarrow> string \<Rightarrow> world \<Rightarrow> (string \<times> Edge) \<times> world" where
  "synthesize_edge c input_urn w =
     (let (t1, w1) = mint_auditstamp c w;
          (t2, w2) = mint_auditstamp c w1
      in ((input_urn,
           \<lparr>destinationUrn = input_urn, created = Some t1, lastModified = Some t2\<rparr>), w2))"

fun input_urn_and_edge ::
  "collaborators \<Rightarrow> EdgeOrUrnOrStr \<Rightarrow> world \<Rightarrow> (string \<times> Edge) \<times> world" where
  "input_urn_and_edge c (IsEdge e) w = ((destinationUrn e, e), w)"
| "input_urn_and_edge c (IsUrn u) w = synthesize_edge c (toString u) w"
| "input_urn_and_edge c (IsStr s) w = synthesize_edge c s w"

definition add_input_edge ::
  "collaborators \<Rightarrow> addr \<Rightarrow> EdgeOrUrnOrStr \<Rightarrow> world \<Rightarrow> addr result" where
  "add_input_edge c self input w =
     (case input_urn_and_edge c input w of
        ((input_urn, input_edge), w1) \<Rightarrow>
          (case ensure_urn_type c ''dataset'' [input_edge] ''add_dataset'' of
             Some e \<Rightarrow> (Inl e, w1)
           | None \<Rightarrow>
               return_self self
                 (add_patch self ChartInfo_ASPECT_NAME Op_add
                    (''/inputEdges/'' @ quote c input_urn) (VStr input_urn) w1)))"

fun str :: "StrOrUrn \<Rightarrow> string" where
  "str (AStr s) = s"
| "str (AUrn u) = toString u"

definition remove_input_edge :: "collaborators \<Rightarrow> addr \<Rightarrow> StrOrUrn \<Rightarrow> world \<Rightarrow> addr result" where
  "remove_input_edge c self input w =
     return_self self
       (add_patch self ChartInfo_ASPECT_NAME Op_remove
          (''/inputEdges/'' @ quote c (str input)) VEmpty w)"

definition set_input_edges :: "addr \<Rightarrow> Edge list \<Rightarrow> world \<Rightarrow> addr result" where
  "set_input_edges self inputs w =
     return_self self
       (add_patch self ChartInfo_ASPECT_NAME Op_add ''/inputEdges'' (VEdges inputs) w)"

definition add_tag :: "addr \<Rightarrow> Tag \<Rightarrow> world \<Rightarrow> addr result" where
  "add_tag self tg w =
     return_self self
       (add_patch self GlobalTags_ASPECT_NAME Op_add (''/tags/'' @ tag tg) (VTag tg) w)"

text \<open>The \<^verbatim>\<open>_add_patch\<close> call of \<^verbatim>\<open>remove_tag\<close>, with the tag formatted into the path.\<close>

definition remove_tag_patch :: "addr \<Rightarrow> StrOrUrn \<Rightarrow> world \<Rightarrow> addr result" where
  "remove_tag_patch self tg w =
     return_self self
       (add_patch self GlobalTags_ASPECT_NAME Op_remove (''/tags/'' @ str tg) VEmpty w)"

text \<open>
  \<^verbatim>\<open>remove_tag\<close> first replaces a string without the prefix by
  \<^verbatim>\<open>TagUrn.create_from_id(tag)\<close>; an exception of that call leaves the method before
  anything is appended.
\<close>

definition remove_tag :: "collaborators \<Rightarrow> addr \<Rightarrow> StrOrUrn \<Rightarrow> world \<Rightarrow> addr result" where
  "remove_tag c self tg w =
     (case tg of
        AStr s \<Rightarrow>
          if \<not> prefix ''urn:li:tag:'' s
          then (case TagUrn_create_from_id c s of
                  Inl e \<Rightarrow> (Inl e, w)
                | Inr u \<Rightarrow> remove_tag_patch self (AUrn u) w)
          else remove_tag_patch self (AStr s) w
      | AUrn u \<Rightarrow> remove_tag_patch self (AUrn u) w)"

definition add_term :: "addr \<Rightarrow> Term \<Rightarrow> world \<Rightarrow> addr result" where
  "add_term self tm w =
     return_self self
       (add_patch self GlossaryTerms_ASPECT_NAME Op_add (''/terms/'' @ urn tm) (VTerm tm) w)"

definition remove_term :: "addr \<Rightarrow> StrOrUrn \<Rightarrow> world \<Rightarrow> addr result" where
  "remove_term self tm w =
     (let tm' = (case tm of
                   AStr s \<Rightarrow>
                     if \<not> prefix ''urn:li:glossaryTerm:'' s
                     then AStr (''urn:li:glossaryTerm:'' @ s)
                     else AStr s
                 | AUrn u \<Rightarrow> AUrn u)
      in return_self self
           (add_patch self GlossaryTerms_ASPECT_NAME Op_remove (''/terms/'' @ str tm') VEmpty w))"

definition set_custom_properties ::
  "addr \<Rightarrow> (string \<times> string) list \<Rightarrow> world \<Rightarrow> addr result" where
  "set_custom_properties self custom_properties w =
     return_self self
       (add_patch self ChartInfo_ASPECT_NAME Op_add ''/customProperties''
          (VDict custom_properties) w)"

definition add_custom_property ::
  "collaborators \<Rightarrow> addr \<Rightarrow> string \<Rightarrow> string \<Rightarrow> world \<Rightarrow> addr result" where
  "add_custom_property c self key v w =
     (case heap w self of
        None \<Rightarrow> (Inl AttributeError, w)
      | Some b \<Rightarrow>
          (case custom_properties_patch_helper b of
             None \<Rightarrow> (Inl AttributeError, w)
           | Some h \<Rightarrow>
               return_self self (CustomPropertiesPatchHelper_add_property c h key v w)))"

definition remove_custom_property ::
  "collaborators \<Rightarrow> addr \<Rightarrow> string \<Rightarrow> world \<Rightarrow> addr result" where
  "remove_custom_property c self key w =
     (case heap w self of
        None \<Rightarrow> (Inl AttributeError, w)
      | Some b \<Rightarrow>
          (case custom_properties_patch_helper b of
             None \<Rightarrow> (Inl AttributeError, w)
           | Some h \<Rightarrow>
               return_self self (CustomPropertiesPatchHelper_remove_property c h key w)))"

text \<open>\<^verbatim>\<open>assert title, msg\<close> raises \<open>AssertionError msg\<close> on the empty string.\<close>

definition set_title :: "addr \<Rightarrow> string \<Rightarrow> world \<Rightarrow> addr result" where
  "set_title self title w =
     (if title = [] then (Inl (AssertionError ''ChartInfo title should not be None''), w)
      else return_self self
             (add_patch self ChartInfo_ASPECT_NAME Op_add ''/title'' (VStr title) w))"

definition set_description :: "addr \<Rightarrow> string \<Rightarrow> world \<Rightarrow> addr result" where
  "set_description self description w =
     (if description = []
      then (Inl (AssertionError ''DashboardInfo description should not be None''), w)
      else return_self self
             (add_patch self ChartInfo_ASPECT_NAME Op_add ''/description'' (VStr description) w))"

text \<open>
  The optional setters test the truth value of their argument: \<^verbatim>\<open>None\<close>, \<^verbatim>\<open>0\<close> and the empty
  string are false.
\<close>

definition truthy_int :: "int option \<Rightarrow> bool" where
  "truthy_int x = (case x of None \<Rightarrow> False | Some n \<Rightarrow> n \<noteq> 0)"

definition truthy_str :: "string option \<Rightarrow> bool" where
  "truthy_str x = (case x of None \<Rightarrow> False | Some s \<Rightarrow> s \<noteq> [])"

definition set_last_refreshed :: "addr \<Rightarrow> int option \<Rightarrow> world \<Rightarrow> addr result" where
  "set_last_refreshed self last_refreshed w =
     (if truthy_int last_refreshed
      then return_self self
             (add_patch self ChartInfo_ASPECT_NAME Op_add ''/lastRefreshed''
                (VInt (the last_refreshed)) w)
      else (Inr self, w))"

definition set_last_modified ::
  "addr \<Rightarrow> ChangeAuditStampsClass option \<Rightarrow> world \<Rightarrow> addr result" where
  "set_last_modified self last_modified w =
     (case last_modified of
        Some s \<Rightarrow>
          return_self self
            (add_patch self ChartInfo_ASPECT_NAME Op_add ''/lastModified'' (VStamps s) w)
      | None \<Rightarrow> (Inr self, w))"

definition set_external_url :: "addr \<Rightarrow> string option \<Rightarrow> world \<Rightarrow> addr result" where
  "set_external_url self external_url w =
     (if truthy_str external_url
      then return_self self
             (add_patch self ChartInfo_ASPECT_NAME Op_add ''/externalUrl''
                (VStr (the external_url)) w)
      else (Inr self, w))"

definition set_chart_url :: "addr \<Rightarrow> string option \<Rightarrow> world \<Rightarrow> addr result" where
  "set_chart_url self dashboard_url w =
     (if truthy_str dashboard_url
      then return_self self
             (add_patch self ChartInfo_ASPECT_NAME Op_add ''/chartUrl''
                (VStr (the dashboard_url)) w)
      else (Inr self, w))"

definition set_type :: "addr \<Rightarrow> string option \<Rightarrow> world \<Rightarrow> addr result" where
  "set_type self type w =
     (if truthy_str type
      then return_self self
             (add_patch self ChartInfo_ASPECT_NAME Op_add ''/type'' (VStr (the type)) w)
      else (Inr self, w))"

definition set_access :: "addr \<Rightarrow> string option \<Rightarrow> world \<Rightarrow> addr result" where
  "set_access self access w =
     (if truthy_str access
      then return_self self
             (add_patch self ChartInfo_ASPECT_NAME Op_add ''/access'' (VStr (the access)) w)
      else (Inr self, w))"

fun add_inputs_loop :: "addr \<Rightarrow> string list \<Rightarrow> world \<Rightarrow> error option \<times> world" where
  "add_inputs_loop self [] w = (None, w)"
| "add_inputs_loop self (u # us) w =
     (case add_patch self ChartInfo_ASPECT_NAME Op_add (''/inputs/'' @ u) (VStr u) w of
        (Some e, w') \<Rightarrow> (Some e, w')
      | (None, w') \<Rightarrow> add_inputs_loop self us w')"

definition add_inputs :: "addr \<Rightarrow> string list option \<Rightarrow> world \<Rightarrow> addr result" where
  "add_inputs self input_urns w =
     (case input_urns of
        None \<Rightarrow> (Inr self, w)
      | Some us \<Rightarrow>
          if us = [] then (Inr self, w)
          else return_self self (add_inputs_loop self us w))"

section \<open>Vocabulary of the properties\<close>

text \<open>Fluent chaining: the next method is invoked on what the previous call returned.\<close>

definition chain :: "addr result \<Rightarrow> (addr \<Rightarrow> world \<Rightarrow> addr result) \<Rightarrow> addr result" where
  "chain r m = (case r of (Inl e, w) \<Rightarrow> (Inl e, w) | (Inr a, w) \<Rightarrow> m a w)"

text \<open>The accumulator of the builder at an address, and a store with operations appended to it.\<close>

definition accumulator :: "world \<Rightarrow> addr \<Rightarrow> PatchOperation list" where
  "accumulator w self = (case heap w self of None \<Rightarrow> [] | Some b \<Rightarrow> patches b)"

definition append_ops :: "addr \<Rightarrow> PatchOperation list \<Rightarrow> world \<Rightarrow> world" where
  "append_ops self ops w =
     (case heap w self of
        None \<Rightarrow> w
      | Some b \<Rightarrow> w\<lparr>heap := (heap w)(self \<mapsto> b\<lparr>patches := patches b @ ops\<rparr>)\<rparr>)"

abbreviation Patch :: "aspect \<Rightarrow> op_kind \<Rightarrow> string \<Rightarrow> PatchValue \<Rightarrow> PatchOperation" where
  "Patch a k p v \<equiv> \<lparr>aspectName = a, op = k, path = p, val = v\<rparr>"

text \<open>
  A builder as \<^verbatim>\<open>ChartPatchBuilder.__init__\<close> leaves it: initialised, with both helpers
  referring back to it and the custom-properties helper bound to the chart-info aspect.
\<close>

definition chart_builder_at :: "world \<Rightarrow> addr \<Rightarrow> bool" where
  "chart_builder_at w self =
     (case heap w self of
        None \<Rightarrow> False
      | Some b \<Rightarrow>
          (case (custom_properties_patch_helper b, ownership_patch_helper b) of
             (Some hc, Some ho) \<Rightarrow>
               cp_parent hc = self \<and> aspect_name hc = ChartInfo_ASPECT_NAME \<and> own_parent ho = self
           | _ \<Rightarrow> False))"

subsection \<open>Sample collaborators for concrete runs\<close>

text \<open>
  One set of collaborators that meets the spec's contracts, used to run the builder on
  concrete inputs: a codec that escapes the escape character \<^verbatim>\<open>~\<close> as \<^verbatim>\<open>~0\<close> and the
  separator \<^verbatim>\<open>/\<close> as \<^verbatim>\<open>~1\<close>, a parser for identifiers of the form
  \<^verbatim>\<open>urn:li:<type>:<id>\<close>, a minter whose n-th stamp carries the time n, tag identifiers
  \<^verbatim>\<open>urn:li:tag:<id>\<close> with the empty id refused by \<open>InvalidUrnError\<close>, and a helper that
  turns down the empty key.
\<close>

fun tilde_quote :: "string \<Rightarrow> string" where
  "tilde_quote [] = []"
| "tilde_quote (x # xs) =
     (if x = CHR ''~'' then ''~0'' else if x = CHR ''/'' then ''~1'' else [x]) @ tilde_quote xs"

definition colon_parse :: "string \<Rightarrow> Urn option" where
  "colon_parse s =
     (if prefix ''urn:li:'' s \<and> CHR '':'' \<in> set (drop 7 s)
      then Some \<lparr>typeQualifier = takeWhile (\<lambda>x. x \<noteq> CHR '':'') (drop 7 s), toString = s\<rparr>
      else None)"

definition sample_collaborators :: collaborators where
  "sample_collaborators =
     \<lparr>quote = tilde_quote, parse = colon_parse,
      mint = (\<lambda>n. \<lparr>time = int n, actor = ''urn:li:corpuser:datahub''\<rparr>),
      TagUrn_create_from_id =
        (\<lambda>s. if s = [] then Inl InvalidUrnError
             else Inr \<lparr>typeQualifier = ''tag'', toString = ''urn:li:tag:'' @ s\<rparr>),
      rejects_key = (\<lambda>k. k = [])\<rparr>"

definition empty_world :: world where
  "empty_world = \<lparr>heap = Map.empty, clock = 0\<rparr>"

text \<open>The store after \<^verbatim>\<open>ChartPatchBuilder("urn:li:chart:(tool,id1)")\<close>, the builder at address 0.\<close>

definition chart_world :: world where
  "chart_world =
     snd (ChartPatchBuilder_init sample_collaborators 0 ''urn:li:chart:(tool,id1)'' None None
            empty_world)"

text \<open>The identifier a relationship target stands for: \<^verbatim>\<open>input_urn\<close> of \<^verbatim>\<open>add_input_edge\<close>.\<close>

fun target_urn :: "EdgeOrUrnOrStr \<Rightarrow> string" where
  "target_urn (IsEdge e) = destinationUrn e"
| "target_urn (IsUrn u) = toString u"
| "target_urn (IsStr s) = s"


section \<open>Supporting lemmas\<close>

lemma add_patch_appends:
  "heap w self = Some b \<Longrightarrow> p \<noteq> [] \<Longrightarrow>
   add_patch self a k p v w = (None, append_ops self [Patch a k p v] w)"
  by (simp add: add_patch_def append_ops_def)

lemma return_self_None: "return_self self (None, w) = (Inr self, w)"
  by (simp add: return_self_def)

lemma return_self_Some: "return_self self (Some e, w) = (Inl e, w)"
  by (simp add: return_self_def)

lemma heap_append_ops:
  "heap w self = Some b \<Longrightarrow>
   heap (append_ops self ops w) = (heap w)(self \<mapsto> b\<lparr>patches := patches b @ ops\<rparr>)"
  by (simp add: append_ops_def)

lemma accumulator_append_ops:
  "heap w self = Some b \<Longrightarrow> accumulator (append_ops self ops w) self = patches b @ ops"
  by (simp add: append_ops_def accumulator_def)

lemma append_ops_twice:
  "heap w self = Some b \<Longrightarrow>
   append_ops self ys (append_ops self xs w) = append_ops self (xs @ ys) w"
  by (simp add: append_ops_def)

lemma init_creates:
  "parse c u = Some i \<Longrightarrow> typeQualifier i = ''chart'' \<Longrightarrow>
   ChartPatchBuilder_init c self u sm ah w =
     (None, w\<lparr>heap := (heap w)(self \<mapsto>
        \<lparr>entityUrn = u, system_metadata = sm, audit_header = ah, patches = [],
         custom_properties_patch_helper =
           Some \<lparr>cp_parent = self, aspect_name = ChartInfo_ASPECT_NAME\<rparr>,
         ownership_patch_helper = Some \<lparr>own_parent = self\<rparr>\<rparr>)\<rparr>)"
  by (simp add: ChartPatchBuilder_init_def MetadataPatchProposal_init_def)

lemma sample_parse_chart:
  "parse sample_collaborators ''urn:li:chart:(tool,id1)'' =
     Some \<lparr>typeQualifier = ''chart'', toString = ''urn:li:chart:(tool,id1)''\<rparr>"
  by (simp add: sample_collaborators_def colon_parse_def)

lemma chart_world_eq:
  "chart_world =
     \<lparr>heap = [0 \<mapsto>
        \<lparr>entityUrn = ''urn:li:chart:(tool,id1)'', system_metadata = None, audit_header = None,
         patches = [],
         custom_properties_patch_helper =
           Some \<lparr>cp_parent = 0, aspect_name = ChartInfo_ASPECT_NAME\<rparr>,
         ownership_patch_helper = Some \<lparr>own_parent = 0\<rparr>\<rparr>],
      clock = 0\<rparr>"
  unfolding chart_world_def
  by (simp add: init_creates [OF sample_parse_chart] empty_world_def)

lemma chart_world_builder: "chart_builder_at chart_world 0"
  by (simp add: chart_world_eq chart_builder_at_def)


lemma builder_atE:
  assumes "chart_builder_at w self"
  obtains b hc ho where "heap w self = Some b"
    and "custom_properties_patch_helper b = Some hc" and "cp_parent hc = self"
    and "aspect_name hc = ChartInfo_ASPECT_NAME"
    and "ownership_patch_helper b = Some ho" and "own_parent ho = self"
  using assms by (auto simp: chart_builder_at_def split: option.splits)

lemma builder_at_append_ops:
  "chart_builder_at w self \<Longrightarrow> chart_builder_at (append_ops self ops w) self"
  by (auto simp: chart_builder_at_def append_ops_def split: option.splits)

subsection \<open>Grouping by aspect keeps the order within each aspect\<close>

lemma set_aspects_in_order: "set (aspects_in_order ps) = aspectName ` set ps"
  by (induction ps) auto

lemma distinct_aspects_in_order: "distinct (aspects_in_order ps)"
  by (induction ps) auto

lemma concat_single_group:
  "distinct as \<Longrightarrow>
   concat (map (\<lambda>a'. if a' = a then xs else []) as) = (if a \<in> set as then xs else [])"
  by (induction as) auto

lemma filter_materialize:
  "filter (\<lambda>p. aspectName p = a) (materialize ps) = filter (\<lambda>p. aspectName p = a) ps"
proof -
  have "filter (\<lambda>p. aspectName p = a) (materialize ps) =
        concat (map (\<lambda>a'. if a' = a then filter (\<lambda>p. aspectName p = a) ps else [])
                    (aspects_in_order ps))"
    unfolding materialize_def filter_concat map_map comp_def
    by (rule arg_cong [where f = concat], rule map_cong, simp)
       (auto simp: filter_empty_conv intro: filter_cong)
  also have "\<dots> = (if a \<in> aspectName ` set ps then filter (\<lambda>p. aspectName p = a) ps else [])"
    by (simp add: concat_single_group distinct_aspects_in_order set_aspects_in_order)
  also have "\<dots> = filter (\<lambda>p. aspectName p = a) ps"
  proof (cases "a \<in> aspectName ` set ps")
    case True
    then show ?thesis by simp
  next
    case False
    then have "filter (\<lambda>p. aspectName p = a) ps = []"
      by (auto simp: filter_empty_conv)
    with False show ?thesis by simp
  qed
  finally show ?thesis .
qed


lemma sample_quote_alice:
  "quote sample_collaborators ''urn:li:corpuser:alice'' = ''urn:li:corpuser:alice''"
  by (simp add: sample_collaborators_def)

section \<open>Claims\<close>

text \<open>
  C1. A chart builder constructed with the identifier \<^verbatim>\<open>urn:li:chart:(tool,id1)\<close>, then
  \<^verbatim>\<open>set_title("Revenue")\<close>, \<^verbatim>\<open>add_tag(Tag(tag="urn:li:tag:pii"))\<close> and
  \<^verbatim>\<open>remove_owner("urn:li:corpuser:alice")\<close>: \<^verbatim>\<open>build()\<close> yields a request for that identifier
  whose batch holds exactly three operations in this order: add \<^verbatim>\<open>/title\<close> with value
  "Revenue", add \<^verbatim>\<open>/tags/urn:li:tag:pii\<close>, remove \<^verbatim>\<open>/owners/urn:li:corpuser:alice\<close>. The
  identifier parser accepts the identifier as a chart, and the codec leaves the owner key,
  which has no separator in it, as it is.
\<close>

theorem scenario_three_operations:
  assumes "parse c ''urn:li:chart:(tool,id1)'' = Some i" and "typeQualifier i = ''chart''"
    and "quote c ''urn:li:corpuser:alice'' = ''urn:li:corpuser:alice''"
  shows "(let w0 = snd (ChartPatchBuilder_init c self ''urn:li:chart:(tool,id1)'' sm ah w);
              r = chain (chain (set_title self ''Revenue'' w0)
                               (\<lambda>a. add_tag a \<lparr>tag = ''urn:li:tag:pii''\<rparr>))
                        (\<lambda>a. remove_owner c a ''urn:li:corpuser:alice'' None)
          in fst (ChartPatchBuilder_init c self ''urn:li:chart:(tool,id1)'' sm ah w) = None
           \<and> fst r = Inr self
           \<and> build self (snd r) = Inr
               \<lparr>entityId = ''urn:li:chart:(tool,id1)'',
                aspectPatches =
                  [(ChartInfo_ASPECT_NAME, [(Op_add, ''/title'', VStr ''Revenue'')]),
                   (GlobalTags_ASPECT_NAME,
                      [(Op_add, ''/tags/urn:li:tag:pii'', VTag \<lparr>tag = ''urn:li:tag:pii''\<rparr>)]),
                   (Ownership_ASPECT_NAME,
                      [(Op_remove, ''/owners/urn:li:corpuser:alice'', VEmpty)])],
                systemMetadata = sm, auditHeader = ah\<rparr>
           \<and> materialize (accumulator (snd r) self) =
               [Patch ChartInfo_ASPECT_NAME Op_add ''/title'' (VStr ''Revenue''),
                Patch GlobalTags_ASPECT_NAME Op_add ''/tags/urn:li:tag:pii''
                  (VTag \<lparr>tag = ''urn:li:tag:pii''\<rparr>),
                Patch Ownership_ASPECT_NAME Op_remove ''/owners/urn:li:corpuser:alice'' VEmpty])"
  using assms
  by (simp add: init_creates Let_def chain_def set_title_def add_tag_def remove_owner_def
      OwnershipPatchHelper_remove_owner_def return_self_def add_patch_def build_def
      materialize_def accumulator_def)

theorem scenario_three_operations_witness:
  "parse sample_collaborators ''urn:li:chart:(tool,id1)'' =
     Some \<lparr>typeQualifier = ''chart'', toString = ''urn:li:chart:(tool,id1)''\<rparr>
   \<and> quote sample_collaborators ''urn:li:corpuser:alice'' = ''urn:li:corpuser:alice''
   \<and> build 0 (snd (chain (chain (set_title 0 ''Revenue'' chart_world)
                               (\<lambda>a. add_tag a \<lparr>tag = ''urn:li:tag:pii''\<rparr>))
                        (\<lambda>a. remove_owner sample_collaborators a ''urn:li:corpuser:alice'' None)))
     = Inr \<lparr>entityId = ''urn:li:chart:(tool,id1)'',
            aspectPatches =
              [(ChartInfo_ASPECT_NAME, [(Op_add, ''/title'', VStr ''Revenue'')]),
               (GlobalTags_ASPECT_NAME,
                  [(Op_add, ''/tags/urn:li:tag:pii'', VTag \<lparr>tag = ''urn:li:tag:pii''\<rparr>)]),
               (Ownership_ASPECT_NAME,
                  [(Op_remove, ''/owners/urn:li:corpuser:alice'', VEmpty)])],
            systemMetadata = None, auditHeader = None\<rparr>"
  using scenario_three_operations [OF sample_parse_chart _ sample_quote_alice,
      of 0 None None empty_world]
  by (simp add: sample_parse_chart sample_quote_alice chart_world_def Let_def)

text \<open>
  C5. \<^verbatim>\<open>set_title("")\<close> fails, and so does \<^verbatim>\<open>set_description("")\<close>; the failing call leaves the
  store, and with it the accumulator, as it was. The failure is the \<open>AssertionError\<close> of the
  method's \<^verbatim>\<open>assert\<close>, which is what the spec calls RequiredFieldError.
\<close>

theorem required_setters_reject_empty:
  "set_title self [] w = (Inl (AssertionError ''ChartInfo title should not be None''), w)
   \<and> set_description self [] w =
       (Inl (AssertionError ''DashboardInfo description should not be None''), w)
   \<and> accumulator (snd (set_title self [] w)) self = accumulator w self
   \<and> accumulator (snd (set_description self [] w)) self = accumulator w self
   \<and> accumulator (snd (set_title 0 [] chart_world)) 0 = []"
  by (simp add: set_title_def set_description_def chart_world_eq accumulator_def)


text \<open>
  C8. Each optional scalar setter (\<^verbatim>\<open>set_last_refreshed\<close>, \<^verbatim>\<open>set_external_url\<close>,
  \<^verbatim>\<open>set_chart_url\<close>, \<^verbatim>\<open>set_type\<close>, \<^verbatim>\<open>set_access\<close>) appends exactly one add operation when its
  value is neither \<^verbatim>\<open>None\<close> nor zero nor empty; on \<^verbatim>\<open>None\<close>, zero or the empty string it
  appends nothing, leaves the store as it was and still returns the builder.
\<close>

theorem optional_setters:
  assumes "heap w self = Some b"
  shows "set_last_refreshed self None w = (Inr self, w)
       \<and> set_last_refreshed self (Some 0) w = (Inr self, w)
       \<and> (n \<noteq> 0 \<longrightarrow> set_last_refreshed self (Some n) w =
            (Inr self,
             append_ops self [Patch ChartInfo_ASPECT_NAME Op_add ''/lastRefreshed'' (VInt n)] w))
       \<and> set_external_url self None w = (Inr self, w)
       \<and> set_external_url self (Some []) w = (Inr self, w)
       \<and> (s \<noteq> [] \<longrightarrow> set_external_url self (Some s) w =
            (Inr self,
             append_ops self [Patch ChartInfo_ASPECT_NAME Op_add ''/externalUrl'' (VStr s)] w))
       \<and> set_chart_url self None w = (Inr self, w)
       \<and> set_chart_url self (Some []) w = (Inr self, w)
       \<and> (s \<noteq> [] \<longrightarrow> set_chart_url self (Some s) w =
            (Inr self,
             append_ops self [Patch ChartInfo_ASPECT_NAME Op_add ''/chartUrl'' (VStr s)] w))
       \<and> set_type self None w = (Inr self, w)
       \<and> set_type self (Some []) w = (Inr self, w)
       \<and> (s \<noteq> [] \<longrightarrow> set_type self (Some s) w =
            (Inr self,
             append_ops self [Patch ChartInfo_ASPECT_NAME Op_add ''/type'' (VStr s)] w))
       \<and> set_access self None w = (Inr self, w)
       \<and> set_access self (Some []) w = (Inr self, w)
       \<and> (s \<noteq> [] \<longrightarrow> set_access self (Some s) w =
            (Inr self,
             append_ops self [Patch ChartInfo_ASPECT_NAME Op_add ''/access'' (VStr s)] w))"
  using assms
  by (simp add: set_last_refreshed_def set_external_url_def set_chart_url_def set_type_def
      set_access_def truthy_int_def truthy_str_def add_patch_appends return_self_None)

lemma chart_world_heap:
  "heap chart_world 0 = Some
     \<lparr>entityUrn = ''urn:li:chart:(tool,id1)'', system_metadata = None, audit_header = None,
      patches = [],
      custom_properties_patch_helper =
        Some \<lparr>cp_parent = 0, aspect_name = ChartInfo_ASPECT_NAME\<rparr>,
      ownership_patch_helper = Some \<lparr>own_parent = 0\<rparr>\<rparr>"
  by (simp add: chart_world_eq)

theorem optional_setters_witness:
  "heap chart_world 0 \<noteq> None \<and> (1700000000::int) \<noteq> 0 \<and> ''https://bi/chart/1'' \<noteq> []
   \<and> accumulator (snd (set_last_refreshed 0 (Some 1700000000) chart_world)) 0 =
       [Patch ChartInfo_ASPECT_NAME Op_add ''/lastRefreshed'' (VInt 1700000000)]
   \<and> accumulator (snd (set_external_url 0 (Some ''https://bi/chart/1'') chart_world)) 0 =
       [Patch ChartInfo_ASPECT_NAME Op_add ''/externalUrl'' (VStr ''https://bi/chart/1'')]
   \<and> set_access 0 (Some []) chart_world = (Inr 0, chart_world)"
  using optional_setters [OF chart_world_heap, of 1700000000 "''https://bi/chart/1''"]
  by (simp add: chart_world_heap accumulator_append_ops [OF chart_world_heap])


subsection \<open>Relationship targets\<close>

lemma input_urn_is_target: "fst (fst (input_urn_and_edge c input w)) = target_urn input"
  by (cases input) (simp_all add: synthesize_edge_def mint_auditstamp_def)

lemma input_edge_points_at_target:
  "destinationUrn (snd (fst (input_urn_and_edge c input w))) = target_urn input"
  by (cases input) (simp_all add: synthesize_edge_def mint_auditstamp_def)

lemma input_urn_and_edge_heap: "heap (snd (input_urn_and_edge c input w)) = heap w"
  by (cases input) (simp_all add: synthesize_edge_def mint_auditstamp_def)

text \<open>
  What the first statement of \<^verbatim>\<open>add_input_edge\<close> binds: a given edge is taken as it is, and
  for a bare identifier or string an edge is made whose \<^verbatim>\<open>created\<close> and \<^verbatim>\<open>lastModified\<close>
  are the next two stamps of the minter.
\<close>

lemma input_edge_verbatim_or_minted:
  "snd (fst (input_urn_and_edge c (IsEdge e) w)) = e
   \<and> snd (fst (input_urn_and_edge c (IsStr s) w)) =
       \<lparr>destinationUrn = s, created = Some (mint c (clock w)),
        lastModified = Some (mint c (Suc (clock w)))\<rparr>
   \<and> snd (fst (input_urn_and_edge c (IsUrn u) w)) =
       \<lparr>destinationUrn = toString u, created = Some (mint c (clock w)),
        lastModified = Some (mint c (Suc (clock w)))\<rparr>"
  by (simp add: synthesize_edge_def mint_auditstamp_def)

text \<open>
  C4. \<^verbatim>\<open>add_input_edge\<close> on a target whose identifier has a type qualifier other than
  \<^verbatim>\<open>dataset\<close> (as \<^verbatim>\<open>urn:li:corpuser:bob\<close>) fails with \<open>InvalidUrnTypeError\<close> before anything
  is appended: no builder of the store has changed after the call.
\<close>

theorem add_input_edge_rejects_other_kinds:
  assumes "parse c (target_urn input) = Some u" and "typeQualifier u \<noteq> ''dataset''"
  shows "fst (add_input_edge c self input w) = Inl InvalidUrnTypeError
       \<and> heap (snd (add_input_edge c self input w)) = heap w
       \<and> accumulator (snd (add_input_edge c self input w)) self = accumulator w self"
proof -
  obtain iu ie w1 where r: "input_urn_and_edge c input w = ((iu, ie), w1)"
    by (metis prod.exhaust)
  have d: "destinationUrn ie = target_urn input"
    using input_edge_points_at_target [of c input w] r by simp
  have h: "heap w1 = heap w"
    using input_urn_and_edge_heap [of c input w] r by simp
  have "add_input_edge c self input w = (Inl InvalidUrnTypeError, w1)"
    using assms by (simp add: add_input_edge_def r d)
  then show ?thesis by (simp add: h accumulator_def)
qed

lemma sample_parse_bob:
  "parse sample_collaborators (target_urn (IsStr ''urn:li:corpuser:bob'')) =
     Some \<lparr>typeQualifier = ''corpuser'', toString = ''urn:li:corpuser:bob''\<rparr>"
  by (simp add: sample_collaborators_def colon_parse_def)

theorem add_input_edge_rejects_other_kinds_witness:
  "parse sample_collaborators (target_urn (IsStr ''urn:li:corpuser:bob'')) =
     Some \<lparr>typeQualifier = ''corpuser'', toString = ''urn:li:corpuser:bob''\<rparr>
   \<and> ''corpuser'' \<noteq> ''dataset''
   \<and> fst (add_input_edge sample_collaborators 0 (IsStr ''urn:li:corpuser:bob'') chart_world) =
       Inl InvalidUrnTypeError
   \<and> accumulator
       (snd (add_input_edge sample_collaborators 0 (IsStr ''urn:li:corpuser:bob'') chart_world)) 0
     = []"
  using add_input_edge_rejects_other_kinds [OF sample_parse_bob, of 0 chart_world]
  by (simp add: sample_parse_bob [simplified] accumulator_def chart_world_heap)

lemma remove_tag_patch_appends:
  "heap w self = Some b \<Longrightarrow>
   remove_tag_patch self tg w =
     (Inr self,
      append_ops self [Patch GlobalTags_ASPECT_NAME Op_remove (''/tags/'' @ str tg) VEmpty] w)"
  by (simp add: remove_tag_patch_def add_patch_appends return_self_None)

text \<open>
  C10, as stated: for any string without the prefix \<^verbatim>\<open>urn:li:tag:\<close>, \<^verbatim>\<open>remove_tag\<close> appends a
  remove at \<^verbatim>\<open>/tags/\<close> followed by the full tag identifier. It fails at the empty string:
  \<^verbatim>\<open>TagUrn.create_from_id\<close> refuses the empty id, its \<open>InvalidUrnError\<close> leaves
  \<^verbatim>\<open>remove_tag\<close>, and nothing is appended.
\<close>

theorem remove_tag_empty_id_counterexample:
  "\<not> prefix ''urn:li:tag:'' []
   \<and> fst (remove_tag sample_collaborators 0 (AStr []) chart_world) = Inl InvalidUrnError
   \<and> accumulator (snd (remove_tag sample_collaborators 0 (AStr []) chart_world)) 0 = []"
  by (simp add: remove_tag_def sample_collaborators_def accumulator_def chart_world_heap)

text \<open>
  C10, amended: \<^verbatim>\<open>remove_tag\<close> and \<^verbatim>\<open>remove_term\<close> normalise a bare string before they build
  the path. For a string without the prefix \<^verbatim>\<open>urn:li:tag:\<close> from which
  \<^verbatim>\<open>TagUrn.create_from_id\<close> makes a tag identifier, the call does what \<^verbatim>\<open>remove_tag\<close> does for
  that identifier: a remove at \<^verbatim>\<open>/tags/\<close> followed by the full identifier; when
  \<^verbatim>\<open>TagUrn.create_from_id\<close> raises, \<^verbatim>\<open>remove_tag\<close> raises the same error and the store stays as
  it was. A string without the prefix \<^verbatim>\<open>urn:li:glossaryTerm:\<close> gets the prefix, so the remove
  is at \<^verbatim>\<open>/terms/urn:li:glossaryTerm:<s>\<close>. A string that carries its prefix is used as it is.
\<close>

theorem remove_tag_term_normalise:
  assumes "heap w self = Some b"
  shows "(\<not> prefix ''urn:li:tag:'' t \<and> TagUrn_create_from_id c t = Inr u \<longrightarrow>
            remove_tag c self (AUrn u) w = remove_tag c self (AStr t) w
          \<and> remove_tag c self (AStr t) w =
              (Inr self,
               append_ops self
                 [Patch GlobalTags_ASPECT_NAME Op_remove (''/tags/'' @ toString u) VEmpty] w))
       \<and> (\<not> prefix ''urn:li:tag:'' t \<and> TagUrn_create_from_id c t = Inl e \<longrightarrow>
            remove_tag c self (AStr t) w = (Inl e, w))
       \<and> (prefix ''urn:li:tag:'' t \<longrightarrow>
            remove_tag c self (AStr t) w =
              (Inr self,
               append_ops self [Patch GlobalTags_ASPECT_NAME Op_remove (''/tags/'' @ t) VEmpty] w))
       \<and> (\<not> prefix ''urn:li:glossaryTerm:'' s \<longrightarrow>
            remove_term self (AStr s) w =
              (Inr self,
               append_ops self
                 [Patch GlossaryTerms_ASPECT_NAME Op_remove
                    (''/terms/urn:li:glossaryTerm:'' @ s) VEmpty] w))
       \<and> (prefix ''urn:li:glossaryTerm:'' s \<longrightarrow>
            remove_term self (AStr s) w =
              (Inr self,
               append_ops self
                 [Patch GlossaryTerms_ASPECT_NAME Op_remove (''/terms/'' @ s) VEmpty] w))"
  using assms
  by (simp add: remove_tag_def remove_tag_patch_appends remove_term_def add_patch_appends
      return_self_None)

lemma sample_tag_urn_pii:
  "TagUrn_create_from_id sample_collaborators ''pii'' =
     Inr \<lparr>typeQualifier = ''tag'', toString = ''urn:li:tag:pii''\<rparr>"
  by (simp add: sample_collaborators_def)

lemma sample_tag_urn_empty: "TagUrn_create_from_id sample_collaborators [] = Inl InvalidUrnError"
  by (simp add: sample_collaborators_def)

theorem remove_tag_term_normalise_witness:
  "heap chart_world 0 \<noteq> None
   \<and> \<not> prefix ''urn:li:tag:'' ''pii'' \<and> \<not> prefix ''urn:li:glossaryTerm:'' ''Revenue''
   \<and> TagUrn_create_from_id sample_collaborators ''pii'' =
       Inr \<lparr>typeQualifier = ''tag'', toString = ''urn:li:tag:pii''\<rparr>
   \<and> \<not> prefix ''urn:li:tag:'' [] \<and> TagUrn_create_from_id sample_collaborators [] = Inl InvalidUrnError
   \<and> prefix ''urn:li:tag:'' ''urn:li:tag:pii''
   \<and> prefix ''urn:li:glossaryTerm:'' ''urn:li:glossaryTerm:Revenue''
   \<and> accumulator (snd (remove_tag sample_collaborators 0 (AStr ''pii'') chart_world)) 0 =
       [Patch GlobalTags_ASPECT_NAME Op_remove ''/tags/urn:li:tag:pii'' VEmpty]
   \<and> remove_tag sample_collaborators 0 (AStr []) chart_world = (Inl InvalidUrnError, chart_world)
   \<and> accumulator (snd (remove_tag sample_collaborators 0 (AStr ''urn:li:tag:pii'') chart_world)) 0 =
       [Patch GlobalTags_ASPECT_NAME Op_remove ''/tags/urn:li:tag:pii'' VEmpty]
   \<and> accumulator (snd (remove_term 0 (AStr ''Revenue'') chart_world)) 0 =
       [Patch GlossaryTerms_ASPECT_NAME Op_remove ''/terms/urn:li:glossaryTerm:Revenue'' VEmpty]"
  using remove_tag_term_normalise [OF chart_world_heap, of "''pii''" sample_collaborators
      "\<lparr>typeQualifier = ''tag'', toString = ''urn:li:tag:pii''\<rparr>" _ "''Revenue''"]
    remove_tag_term_normalise [OF chart_world_heap, of "[]" sample_collaborators _
      InvalidUrnError "''urn:li:glossaryTerm:Revenue''"]
    remove_tag_term_normalise [OF chart_world_heap, of "''urn:li:tag:pii''" sample_collaborators]
  by (simp add: chart_world_heap accumulator_append_ops [OF chart_world_heap]
      sample_tag_urn_pii sample_tag_urn_empty)

subsection \<open>Wholesale replacement and keyed entries\<close>

lemma build_after_first_ops:
  "heap w self = Some b \<Longrightarrow> patches b = [] \<Longrightarrow>
   map_sum id aspectPatches (build self (append_ops self [Patch a k p v] w)) =
     Inr [(a, [(k, p, v)])]"
  by (simp add: build_def append_ops_def)

text \<open>
  C6. A wholesale-set call (\<^verbatim>\<open>set_input_edges\<close>, \<^verbatim>\<open>set_custom_properties\<close>, \<^verbatim>\<open>set_owners\<close>)
  appends exactly one add operation, at the bare field (\<^verbatim>\<open>/inputEdges\<close>,
  \<^verbatim>\<open>/customProperties\<close>, \<^verbatim>\<open>/owners\<close>) and with the whole collection as its value; on a builder
  with nothing accumulated yet, \<^verbatim>\<open>build()\<close> after the call holds exactly that one operation.
\<close>

theorem wholesale_set_single_operation:
  assumes "chart_builder_at w self"
  shows "set_input_edges self inputs w =
           (Inr self,
            append_ops self [Patch ChartInfo_ASPECT_NAME Op_add ''/inputEdges'' (VEdges inputs)] w)
       \<and> set_custom_properties self props w =
           (Inr self,
            append_ops self
              [Patch ChartInfo_ASPECT_NAME Op_add ''/customProperties'' (VDict props)] w)
       \<and> set_owners self owners w =
           (Inr self,
            append_ops self [Patch Ownership_ASPECT_NAME Op_add ''/owners'' (VOwners owners)] w)
       \<and> (accumulator w self = [] \<longrightarrow>
            map_sum id aspectPatches (build self (snd (set_input_edges self inputs w))) =
              Inr [(ChartInfo_ASPECT_NAME, [(Op_add, ''/inputEdges'', VEdges inputs)])]
          \<and> map_sum id aspectPatches (build self (snd (set_custom_properties self props w))) =
              Inr [(ChartInfo_ASPECT_NAME, [(Op_add, ''/customProperties'', VDict props)])]
          \<and> map_sum id aspectPatches (build self (snd (set_owners self owners w))) =
              Inr [(Ownership_ASPECT_NAME, [(Op_add, ''/owners'', VOwners owners)])])"
proof -
  from assms obtain b hc ho where b: "heap w self = Some b"
    and ho: "ownership_patch_helper b = Some ho" "own_parent ho = self"
    by (rule builder_atE)
  have e: "set_input_edges self inputs w =
           (Inr self,
            append_ops self [Patch ChartInfo_ASPECT_NAME Op_add ''/inputEdges'' (VEdges inputs)] w)"
    by (simp add: set_input_edges_def add_patch_appends [OF b] return_self_None)
  have p: "set_custom_properties self props w =
           (Inr self,
            append_ops self
              [Patch ChartInfo_ASPECT_NAME Op_add ''/customProperties'' (VDict props)] w)"
    by (simp add: set_custom_properties_def add_patch_appends [OF b] return_self_None)
  have o: "set_owners self owners w =
           (Inr self,
            append_ops self [Patch Ownership_ASPECT_NAME Op_add ''/owners'' (VOwners owners)] w)"
    by (simp add: set_owners_def OwnershipPatchHelper_set_owners_def b ho
        add_patch_appends [OF b] return_self_None)
  have "accumulator w self = [] \<Longrightarrow> patches b = []"
    by (simp add: accumulator_def b)
  then show ?thesis
    by (simp add: e p o build_after_first_ops [OF b])
qed

theorem wholesale_set_single_operation_witness:
  "chart_builder_at chart_world 0 \<and> accumulator chart_world 0 = []
   \<and> fst (set_owners 0 [\<lparr>owner = ''urn:li:corpuser:alice'', ownerType = ''DATAOWNER''\<rparr>]
            chart_world) = Inr 0
   \<and> map_sum id aspectPatches
       (build 0 (snd (set_custom_properties 0 [(''team'', ''bi'')] chart_world))) =
       Inr [(ChartInfo_ASPECT_NAME,
             [(Op_add, ''/customProperties'', VDict [(''team'', ''bi'')])])]"
  using wholesale_set_single_operation [OF chart_world_builder,
      of "[]" "[(''team'', ''bi'')]" "[\<lparr>owner = ''urn:li:corpuser:alice'', ownerType = ''DATAOWNER''\<rparr>]"]
  by (auto simp: chart_world_builder accumulator_def chart_world_heap)

lemma add_custom_property_appends:
  assumes "chart_builder_at w self" and "\<not> rejects_key c key"
  shows "add_custom_property c self key v w =
           (Inr self,
            append_ops self
              [Patch ChartInfo_ASPECT_NAME Op_add (''/customProperties/'' @ quote c key) (VStr v)]
              w)"
proof -
  from assms(1) obtain b hc ho where b: "heap w self = Some b"
    and hc: "custom_properties_patch_helper b = Some hc" "cp_parent hc = self"
      "aspect_name hc = ChartInfo_ASPECT_NAME"
    by (rule builder_atE)
  show ?thesis
    using assms(2)
    by (simp add: add_custom_property_def b hc CustomPropertiesPatchHelper_add_property_def
        add_patch_appends [OF b] return_self_None)
qed

lemma remove_custom_property_appends:
  assumes "chart_builder_at w self" and "\<not> rejects_key c key"
  shows "remove_custom_property c self key w =
           (Inr self,
            append_ops self
              [Patch ChartInfo_ASPECT_NAME Op_remove (''/customProperties/'' @ quote c key) VEmpty]
              w)"
proof -
  from assms(1) obtain b hc ho where b: "heap w self = Some b"
    and hc: "custom_properties_patch_helper b = Some hc" "cp_parent hc = self"
      "aspect_name hc = ChartInfo_ASPECT_NAME"
    by (rule builder_atE)
  show ?thesis
    using assms(2)
    by (simp add: remove_custom_property_def b hc
        CustomPropertiesPatchHelper_remove_property_def add_patch_appends [OF b]
        return_self_None)
qed

lemma accumulator_after_append:
  "chart_builder_at w self \<Longrightarrow>
   accumulator (append_ops self ops w) self = accumulator w self @ ops"
  by (auto simp: chart_builder_at_def append_ops_def accumulator_def split: option.splits)

lemma append_ops_append_ops:
  "chart_builder_at w self \<Longrightarrow>
   append_ops self ys (append_ops self xs w) = append_ops self (xs @ ys) w"
  by (auto simp: chart_builder_at_def append_ops_def split: option.splits)

text \<open>
  C7. For every key that the helper's validation lets through, \<^verbatim>\<open>add_custom_property\<close>
  followed by \<^verbatim>\<open>remove_custom_property\<close> on the same key appends both operations, the add
  before the remove, behind whatever the accumulator already held; nothing that was there,
  with the same path or another, is dropped or merged, and the materialized batch lists the
  operations of the aspect in the same order. With a helper that turns down no key this is
  every key, the empty one too.
\<close>

theorem add_then_remove_both_kept:
  assumes "chart_builder_at w self" and "\<not> rejects_key c key"
  shows "chain (add_custom_property c self key v w) (\<lambda>a. remove_custom_property c a key) =
           (Inr self,
            append_ops self
              [Patch ChartInfo_ASPECT_NAME Op_add (''/customProperties/'' @ quote c key) (VStr v),
               Patch ChartInfo_ASPECT_NAME Op_remove (''/customProperties/'' @ quote c key) VEmpty]
              w)
       \<and> filter (\<lambda>p. aspectName p = ChartInfo_ASPECT_NAME)
           (materialize (accumulator
              (snd (chain (add_custom_property c self key v w)
                          (\<lambda>a. remove_custom_property c a key))) self)) =
         filter (\<lambda>p. aspectName p = ChartInfo_ASPECT_NAME) (accumulator w self) @
           [Patch ChartInfo_ASPECT_NAME Op_add (''/customProperties/'' @ quote c key) (VStr v),
            Patch ChartInfo_ASPECT_NAME Op_remove (''/customProperties/'' @ quote c key) VEmpty]"
proof -
  let ?add = "Patch ChartInfo_ASPECT_NAME Op_add (''/customProperties/'' @ quote c key) (VStr v)"
  let ?rem = "Patch ChartInfo_ASPECT_NAME Op_remove (''/customProperties/'' @ quote c key) VEmpty"
  have 1: "add_custom_property c self key v w = (Inr self, append_ops self [?add] w)"
    using assms by (rule add_custom_property_appends)
  have 2: "remove_custom_property c self key (append_ops self [?add] w) =
           (Inr self, append_ops self [?rem] (append_ops self [?add] w))"
    using builder_at_append_ops [OF assms(1)] assms(2) by (rule remove_custom_property_appends)
  have 3: "chain (add_custom_property c self key v w) (\<lambda>a. remove_custom_property c a key) =
           (Inr self, append_ops self ([?add] @ [?rem]) w)"
    unfolding chain_def 1 prod.case sum.case 2 append_ops_append_ops [OF assms(1)] ..
  have 4: "accumulator (append_ops self ([?add] @ [?rem]) w) self =
           accumulator w self @ ([?add] @ [?rem])"
    using assms(1) by (rule accumulator_after_append)
  have 5: "filter (\<lambda>p. aspectName p = ChartInfo_ASPECT_NAME) [?add, ?rem] = [?add, ?rem]"
    by simp
  show ?thesis
    unfolding 3 snd_conv 4 filter_materialize filter_append
    using 5 by simp
qed

theorem add_then_remove_both_kept_witness:
  "chart_builder_at chart_world 0 \<and> \<not> rejects_key sample_collaborators ''k1''
   \<and> chain (add_custom_property sample_collaborators 0 ''k1'' ''v1'' chart_world)
        (\<lambda>a. remove_custom_property sample_collaborators a ''k1'') =
       (Inr 0,
        append_ops 0
          [Patch ChartInfo_ASPECT_NAME Op_add ''/customProperties/k1'' (VStr ''v1''),
           Patch ChartInfo_ASPECT_NAME Op_remove ''/customProperties/k1'' VEmpty]
          chart_world)
   \<and> \<not> rejects_key (sample_collaborators\<lparr>rejects_key := \<lambda>k. False\<rparr>) []
   \<and> chain (add_custom_property (sample_collaborators\<lparr>rejects_key := \<lambda>k. False\<rparr>) 0 []
               ''v1'' chart_world)
        (\<lambda>a. remove_custom_property (sample_collaborators\<lparr>rejects_key := \<lambda>k. False\<rparr>) a []) =
       (Inr 0,
        append_ops 0
          [Patch ChartInfo_ASPECT_NAME Op_add ''/customProperties/'' (VStr ''v1''),
           Patch ChartInfo_ASPECT_NAME Op_remove ''/customProperties/'' VEmpty]
          chart_world)"
  using add_then_remove_both_kept [OF chart_world_builder, of sample_collaborators "''k1''"
      "''v1''"]
    add_then_remove_both_kept [OF chart_world_builder,
      of "sample_collaborators\<lparr>rejects_key := \<lambda>k. False\<rparr>" "[]" "''v1''"]
  by (simp add: chart_world_builder sample_collaborators_def)

subsection \<open>The loop of \<^verbatim>\<open>add_inputs\<close>\<close>

lemma append_ops_Nil: "append_ops self [] w = w"
  by (simp add: append_ops_def map_upd_triv split: option.splits)

lemma add_inputs_loop_appends:
  "chart_builder_at w self \<Longrightarrow>
   add_inputs_loop self us w =
     (None,
      append_ops self
        (map (\<lambda>u. Patch ChartInfo_ASPECT_NAME Op_add (''/inputs/'' @ u) (VStr u)) us) w)"
proof (induction us arbitrary: w)
  case Nil
  show ?case by (simp add: append_ops_Nil)
next
  case (Cons u us)
  from Cons.prems obtain b where b: "heap w self = Some b"
    by (auto elim: builder_atE)
  let ?w1 = "append_ops self [Patch ChartInfo_ASPECT_NAME Op_add (''/inputs/'' @ u) (VStr u)] w"
  have s: "add_patch self ChartInfo_ASPECT_NAME Op_add (''/inputs/'' @ u) (VStr u) w = (None, ?w1)"
    by (rule add_patch_appends [OF b]) simp
  have w1: "chart_builder_at ?w1 self"
    using Cons.prems by (rule builder_at_append_ops)
  show ?case
    unfolding add_inputs_loop.simps s prod.case option.case Cons.IH [OF w1]
      append_ops_append_ops [OF Cons.prems]
    by simp
qed


subsection \<open>What a successful \<^verbatim>\<open>add_input_edge\<close> appends\<close>

lemma add_input_edge_appends:
  assumes "heap w self = Some b"
    and "parse c (target_urn input) = Some u" and "typeQualifier u = ''dataset''"
  shows "add_input_edge c self input w =
           (Inr self,
            append_ops self
              [Patch ChartInfo_ASPECT_NAME Op_add
                 (''/inputEdges/'' @ quote c (target_urn input)) (VStr (target_urn input))]
              (snd (input_urn_and_edge c input w)))"
proof -
  obtain iu ie w1 where r: "input_urn_and_edge c input w = ((iu, ie), w1)"
    by (metis prod.exhaust)
  have iu: "iu = target_urn input"
    using input_urn_is_target [of c input w] r by simp
  have d: "destinationUrn ie = target_urn input"
    using input_edge_points_at_target [of c input w] r by simp
  have h: "heap w1 self = Some b"
    using input_urn_and_edge_heap [of c input w] r assms(1) by simp
  show ?thesis
    using assms(2,3)
    by (simp add: add_input_edge_def r d iu add_patch_appends [OF h] return_self_None)
qed

text \<open>
  C9. Every mutation method of the builder returns the builder it was invoked on. The calls
  are those that return at all: a non-empty title, description and owner key, a property
  key that the helper lets through, a dataset-typed relationship target, and for
  \<^verbatim>\<open>remove_tag\<close> an identifier object, a string with the tag prefix or an id from which
  \<^verbatim>\<open>TagUrn.create_from_id\<close> makes an identifier.
\<close>

theorem every_method_returns_self:
  assumes "chart_builder_at w self"
    and "owner ow \<noteq> []" and "who \<noteq> []" and "\<not> rejects_key c key"
    and "title \<noteq> []" and "description \<noteq> []"
    and "parse c (target_urn input) = Some u" and "typeQualifier u = ''dataset''"
    and "prefix ''urn:li:tag:'' full_tag" and "TagUrn_create_from_id c tag_id = Inr tu"
  shows "fst (add_owner c self ow w) = Inr self
       \<and> fst (remove_owner c self who owner_type w) = Inr self
       \<and> fst (set_owners self owners w) = Inr self
       \<and> fst (add_input_edge c self input w) = Inr self
       \<and> fst (remove_input_edge c self removed w) = Inr self
       \<and> fst (set_input_edges self inputs w) = Inr self
       \<and> fst (add_tag self tg w) = Inr self
       \<and> fst (remove_tag c self (AUrn tag_urn) w) = Inr self
       \<and> fst (remove_tag c self (AStr full_tag) w) = Inr self
       \<and> fst (remove_tag c self (AStr tag_id) w) = Inr self
       \<and> fst (add_term self tm w) = Inr self
       \<and> fst (remove_term self rterm w) = Inr self
       \<and> fst (set_custom_properties self props w) = Inr self
       \<and> fst (add_custom_property c self key v w) = Inr self
       \<and> fst (remove_custom_property c self key w) = Inr self
       \<and> fst (set_title self title w) = Inr self
       \<and> fst (set_description self description w) = Inr self
       \<and> fst (set_last_refreshed self last_refreshed w) = Inr self
       \<and> fst (set_last_modified self last_modified w) = Inr self
       \<and> fst (set_external_url self external_url w) = Inr self
       \<and> fst (set_chart_url self chart_url w) = Inr self
       \<and> fst (set_type self type w) = Inr self
       \<and> fst (set_access self access w) = Inr self
       \<and> fst (add_inputs self input_urns w) = Inr self"
proof -
  from assms(1) obtain b hc ho where b: "heap w self = Some b"
    and ho: "ownership_patch_helper b = Some ho" "own_parent ho = self"
    by (rule builder_atE)
  note ap = add_patch_appends [OF b] return_self_None
  have 1: "fst (add_owner c self ow w) = Inr self"
    using assms(2) by (simp add: add_owner_def OwnershipPatchHelper_add_owner_def b ho ap)
  have 2: "fst (remove_owner c self who owner_type w) = Inr self"
    using assms(3) by (simp add: remove_owner_def OwnershipPatchHelper_remove_owner_def b ho ap)
  have 3: "fst (set_owners self owners w) = Inr self"
    by (simp add: set_owners_def OwnershipPatchHelper_set_owners_def b ho ap)
  have 4: "fst (add_input_edge c self input w) = Inr self"
    by (simp add: add_input_edge_appends [OF b assms(7,8)])
  have 5: "fst (remove_input_edge c self removed w) = Inr self"
    by (simp add: remove_input_edge_def ap)
  have 6: "fst (set_input_edges self inputs w) = Inr self"
    by (simp add: set_input_edges_def ap)
  have 7: "fst (add_tag self tg w) = Inr self"
    by (simp add: add_tag_def ap)
  have 8: "fst (remove_tag c self (AUrn tag_urn) w) = Inr self"
    by (simp add: remove_tag_def remove_tag_patch_appends [OF b])
  have 23: "fst (remove_tag c self (AStr full_tag) w) = Inr self"
    using assms(9) by (simp add: remove_tag_def remove_tag_patch_appends [OF b])
  have 24: "fst (remove_tag c self (AStr tag_id) w) = Inr self"
    using assms(10) by (simp add: remove_tag_def remove_tag_patch_appends [OF b])
  have 9: "fst (add_term self tm w) = Inr self"
    by (simp add: add_term_def ap)
  have 10: "fst (remove_term self rterm w) = Inr self"
    by (simp add: remove_term_def ap)
  have 11: "fst (set_custom_properties self props w) = Inr self"
    by (simp add: set_custom_properties_def ap)
  have 12: "fst (add_custom_property c self key v w) = Inr self"
    by (simp add: add_custom_property_appends [OF assms(1,4)])
  have 13: "fst (remove_custom_property c self key w) = Inr self"
    by (simp add: remove_custom_property_appends [OF assms(1,4)])
  have 14: "fst (set_title self title w) = Inr self"
    using assms(5) by (simp add: set_title_def ap)
  have 15: "fst (set_description self description w) = Inr self"
    using assms(6) by (simp add: set_description_def ap)
  have 16: "fst (set_last_refreshed self last_refreshed w) = Inr self"
    by (simp add: set_last_refreshed_def ap)
  have 17: "fst (set_last_modified self last_modified w) = Inr self"
    by (simp add: set_last_modified_def ap split: option.splits)
  have 18: "fst (set_external_url self external_url w) = Inr self"
    by (simp add: set_external_url_def ap)
  have 19: "fst (set_chart_url self chart_url w) = Inr self"
    by (simp add: set_chart_url_def ap)
  have 20: "fst (set_type self type w) = Inr self"
    by (simp add: set_type_def ap)
  have 21: "fst (set_access self access w) = Inr self"
    by (simp add: set_access_def ap)
  have 22: "fst (add_inputs self input_urns w) = Inr self"
    by (simp add: add_inputs_def add_inputs_loop_appends [OF assms(1)] return_self_None
        split: option.splits)
  from 1 2 3 4 5 6 7 8 23 24 9 10 11 show ?thesis
    using 12 13 14 15 16 17 18 19 20 21 22 by blast
qed

lemma sample_parse_dataset:
  "parse sample_collaborators
     (target_urn (IsStr ''urn:li:dataset:(urn:li:dataPlatform:hive,sales,PROD)'')) =
   Some \<lparr>typeQualifier = ''dataset'',
         toString = ''urn:li:dataset:(urn:li:dataPlatform:hive,sales,PROD)''\<rparr>"
  by (simp add: sample_collaborators_def colon_parse_def)

theorem every_method_returns_self_witness:
  "chart_builder_at chart_world 0
   \<and> owner \<lparr>owner = ''urn:li:corpuser:alice'', ownerType = ''DATAOWNER''\<rparr> \<noteq> []
   \<and> ''urn:li:corpuser:alice'' \<noteq> [] \<and> \<not> rejects_key sample_collaborators ''k1''
   \<and> ''Revenue'' \<noteq> [] \<and> ''Revenue by month'' \<noteq> []
   \<and> prefix ''urn:li:tag:'' ''urn:li:tag:pii''
   \<and> TagUrn_create_from_id sample_collaborators ''pii'' =
       Inr \<lparr>typeQualifier = ''tag'', toString = ''urn:li:tag:pii''\<rparr>
   \<and> fst (add_owner sample_collaborators 0
             \<lparr>owner = ''urn:li:corpuser:alice'', ownerType = ''DATAOWNER''\<rparr> chart_world) = Inr 0
   \<and> fst (add_input_edge sample_collaborators 0
             (IsStr ''urn:li:dataset:(urn:li:dataPlatform:hive,sales,PROD)'') chart_world) = Inr 0
   \<and> fst (remove_tag sample_collaborators 0 (AStr ''urn:li:tag:pii'') chart_world) = Inr 0
   \<and> fst (remove_tag sample_collaborators 0 (AStr ''pii'') chart_world) = Inr 0
   \<and> fst (set_title 0 ''Revenue'' chart_world) = Inr 0
   \<and> fst (set_description 0 ''Revenue by month'' chart_world) = Inr 0
   \<and> fst (add_custom_property sample_collaborators 0 ''k1'' ''v1'' chart_world) = Inr 0
   \<and> fst (add_inputs 0 (Some [''urn:li:dataset:(urn:li:dataPlatform:hive,sales,PROD)''])
             chart_world) = Inr 0"
proof -
  have k: "\<not> rejects_key sample_collaborators ''k1''"
    by (simp add: sample_collaborators_def)
  have o: "owner \<lparr>owner = ''urn:li:corpuser:alice'', ownerType = ''DATAOWNER''\<rparr> \<noteq> []"
    by simp
  have f: "prefix ''urn:li:tag:'' ''urn:li:tag:pii''"
    by simp
  note t = every_method_returns_self [OF chart_world_builder o _ k _ _ sample_parse_dataset _ f
      sample_tag_urn_pii, of "''urn:li:corpuser:alice''" "''Revenue''" "''Revenue by month''"]
  show ?thesis
    using t [of None "[]" "AStr ''urn:li:dataset:(urn:li:dataPlatform:hive,sales,PROD)''" "[]"
        "\<lparr>tag = ''urn:li:tag:pii''\<rparr>" "\<lparr>typeQualifier = ''tag'', toString = ''urn:li:tag:pii''\<rparr>"
        "\<lparr>urn = ''urn:li:glossaryTerm:Revenue''\<rparr>" "AStr ''Revenue''" "[]" "''v1''" None None
        None None None None
        "Some [''urn:li:dataset:(urn:li:dataPlatform:hive,sales,PROD)'']"]
    by (simp add: chart_world_builder k sample_tag_urn_pii)
qed

subsection \<open>Paths built without the codec\<close>

lemma raw_key_segments:
  assumes "heap w self = Some b"
  shows "add_tag self tg w =
           (Inr self,
            append_ops self [Patch GlobalTags_ASPECT_NAME Op_add (''/tags/'' @ tag tg) (VTag tg)] w)"
    and "add_term self tm w =
           (Inr self,
            append_ops self
              [Patch GlossaryTerms_ASPECT_NAME Op_add (''/terms/'' @ urn tm) (VTerm tm)] w)"
    and "add_inputs self (Some [u]) w =
           (Inr self,
            append_ops self [Patch ChartInfo_ASPECT_NAME Op_add (''/inputs/'' @ u) (VStr u)] w)"
  using assms
  by (simp_all add: add_tag_def add_term_def add_inputs_def add_patch_appends return_self_None)

text \<open>
  C2. Every path segment that names a map or set key is to be escaped by the codec before
  it is joined into the path. \<^verbatim>\<open>add_input_edge\<close> and \<^verbatim>\<open>remove_input_edge\<close> do so;
  \<^verbatim>\<open>add_inputs\<close>, \<^verbatim>\<open>add_tag\<close>, \<^verbatim>\<open>remove_tag\<close>, \<^verbatim>\<open>add_term\<close> and \<^verbatim>\<open>remove_term\<close> format the key
  into the path as it is. On a dataset identifier with a separator in its name, under a
  codec that escapes the separator as \<^verbatim>\<open>~1\<close>, \<^verbatim>\<open>add_inputs\<close> appends a path with the raw
  separator inside the key segment, where \<^verbatim>\<open>add_input_edge\<close> appends the escaped one; the
  same holds for \<^verbatim>\<open>add_tag\<close> on a tag with a separator.
\<close>

theorem key_segments_left_unquoted:
  "accumulator
     (snd (add_inputs 0 (Some [''urn:li:dataset:(urn:li:dataPlatform:s3,bucket/key,PROD)''])
             chart_world)) 0 =
     [Patch ChartInfo_ASPECT_NAME Op_add
        ''/inputs/urn:li:dataset:(urn:li:dataPlatform:s3,bucket/key,PROD)''
        (VStr ''urn:li:dataset:(urn:li:dataPlatform:s3,bucket/key,PROD)'')]
   \<and> accumulator
       (snd (add_input_edge sample_collaborators 0
               (IsStr ''urn:li:dataset:(urn:li:dataPlatform:s3,bucket/key,PROD)'') chart_world)) 0 =
     [Patch ChartInfo_ASPECT_NAME Op_add
        ''/inputEdges/urn:li:dataset:(urn:li:dataPlatform:s3,bucket~1key,PROD)''
        (VStr ''urn:li:dataset:(urn:li:dataPlatform:s3,bucket/key,PROD)'')]
   \<and> accumulator (snd (add_tag 0 \<lparr>tag = ''urn:li:tag:a/b''\<rparr> chart_world)) 0 =
     [Patch GlobalTags_ASPECT_NAME Op_add ''/tags/urn:li:tag:a/b''
        (VTag \<lparr>tag = ''urn:li:tag:a/b''\<rparr>)]
   \<and> quote sample_collaborators ''urn:li:tag:a/b'' = ''urn:li:tag:a~1b''"
proof -
  have p: "parse sample_collaborators
             (target_urn (IsStr ''urn:li:dataset:(urn:li:dataPlatform:s3,bucket/key,PROD)'')) =
           Some \<lparr>typeQualifier = ''dataset'',
                 toString = ''urn:li:dataset:(urn:li:dataPlatform:s3,bucket/key,PROD)''\<rparr>"
    by (simp add: sample_collaborators_def colon_parse_def)
  have q: "quote sample_collaborators
             ''urn:li:dataset:(urn:li:dataPlatform:s3,bucket/key,PROD)'' =
           ''urn:li:dataset:(urn:li:dataPlatform:s3,bucket~1key,PROD)''"
    by (simp add: sample_collaborators_def)
  have 1: "accumulator
     (snd (add_inputs 0 (Some [''urn:li:dataset:(urn:li:dataPlatform:s3,bucket/key,PROD)''])
             chart_world)) 0 =
     [Patch ChartInfo_ASPECT_NAME Op_add
        ''/inputs/urn:li:dataset:(urn:li:dataPlatform:s3,bucket/key,PROD)''
        (VStr ''urn:li:dataset:(urn:li:dataPlatform:s3,bucket/key,PROD)'')]"
    by (simp add: raw_key_segments(3) [OF chart_world_heap]
        accumulator_append_ops [OF chart_world_heap])
  have 2: "accumulator
       (snd (add_input_edge sample_collaborators 0
               (IsStr ''urn:li:dataset:(urn:li:dataPlatform:s3,bucket/key,PROD)'') chart_world)) 0 =
     [Patch ChartInfo_ASPECT_NAME Op_add
        ''/inputEdges/urn:li:dataset:(urn:li:dataPlatform:s3,bucket~1key,PROD)''
        (VStr ''urn:li:dataset:(urn:li:dataPlatform:s3,bucket/key,PROD)'')]"
    using q
    by (simp add: add_input_edge_appends [OF chart_world_heap p] synthesize_edge_def
        mint_auditstamp_def append_ops_def accumulator_def chart_world_heap)
  have 3: "accumulator (snd (add_tag 0 \<lparr>tag = ''urn:li:tag:a/b''\<rparr> chart_world)) 0 =
     [Patch GlobalTags_ASPECT_NAME Op_add ''/tags/urn:li:tag:a/b''
        (VTag \<lparr>tag = ''urn:li:tag:a/b''\<rparr>)]"
    by (simp add: raw_key_segments(1) [OF chart_world_heap]
        accumulator_append_ops [OF chart_world_heap])
  have 4: "quote sample_collaborators ''urn:li:tag:a/b'' = ''urn:li:tag:a~1b''"
    by (simp add: sample_collaborators_def)
  from 1 2 3 4 show ?thesis by blast
qed

text \<open>
  C3. \<^verbatim>\<open>add_input_edge\<close> on a fully-formed edge is to use that edge as it is, with the
  caller's \<^verbatim>\<open>created\<close> and \<^verbatim>\<open>lastModified\<close> stamps. The method binds the edge, checks its
  target and then appends the bare identifier string as the value: the result of the call
  does not depend on the stamps of the edge, and the appended operation carries none.
\<close>

theorem add_input_edge_drops_stamps:
  "add_input_edge c self (IsEdge (e\<lparr>created := x, lastModified := y\<rparr>)) w =
     add_input_edge c self (IsEdge e) w
   \<and> add_input_edge sample_collaborators 0
       (IsEdge \<lparr>destinationUrn = ''urn:li:dataset:(urn:li:dataPlatform:hive,sales,PROD)'',
                created = Some \<lparr>time = 1, actor = ''urn:li:corpuser:alice''\<rparr>,
                lastModified = Some \<lparr>time = 2, actor = ''urn:li:corpuser:alice''\<rparr>\<rparr>)
       chart_world =
     (Inr 0,
      append_ops 0
        [Patch ChartInfo_ASPECT_NAME Op_add
           ''/inputEdges/urn:li:dataset:(urn:li:dataPlatform:hive,sales,PROD)''
           (VStr ''urn:li:dataset:(urn:li:dataPlatform:hive,sales,PROD)'')]
        chart_world)"
proof -
  have 1: "add_input_edge c self (IsEdge (e\<lparr>created := x, lastModified := y\<rparr>)) w =
           add_input_edge c self (IsEdge e) w"
    by (simp add: add_input_edge_def)
  have p: "parse sample_collaborators
             (target_urn (IsEdge
                \<lparr>destinationUrn = ''urn:li:dataset:(urn:li:dataPlatform:hive,sales,PROD)'',
                 created = Some \<lparr>time = 1, actor = ''urn:li:corpuser:alice''\<rparr>,
                 lastModified = Some \<lparr>time = 2, actor = ''urn:li:corpuser:alice''\<rparr>\<rparr>)) =
           Some \<lparr>typeQualifier = ''dataset'',
                 toString = ''urn:li:dataset:(urn:li:dataPlatform:hive,sales,PROD)''\<rparr>"
    by (simp add: sample_collaborators_def colon_parse_def)
  have q: "quote sample_collaborators ''urn:li:dataset:(urn:li:dataPlatform:hive,sales,PROD)'' =
           ''urn:li:dataset:(urn:li:dataPlatform:hive,sales,PROD)''"
    by (simp add: sample_collaborators_def)
  have 2: "add_input_edge sample_collaborators 0
       (IsEdge \<lparr>destinationUrn = ''urn:li:dataset:(urn:li:dataPlatform:hive,sales,PROD)'',
                created = Some \<lparr>time = 1, actor = ''urn:li:corpuser:alice''\<rparr>,
                lastModified = Some \<lparr>time = 2, actor = ''urn:li:corpuser:alice''\<rparr>\<rparr>)
       chart_world =
     (Inr 0,
      append_ops 0
        [Patch ChartInfo_ASPECT_NAME Op_add
           ''/inputEdges/urn:li:dataset:(urn:li:dataPlatform:hive,sales,PROD)''
           (VStr ''urn:li:dataset:(urn:li:dataPlatform:hive,sales,PROD)'')]
        chart_world)"
    using q by (simp add: add_input_edge_appends [OF chart_world_heap p])
  from 1 2 show ?thesis by blast
qed

end
